theory Spec2Isabelle
  imports Complex_Main "HOL-Library.Sublist" "HOL-Library.Multiset" "HOL-Library.AList"
begin

section \<open>Strings: the two Python operations \<open>judge_name\<close> uses\<close>

text \<open>
  \<open>str(i)\<close> for a non-negative Python int: its decimal digits, most significant first,
  without leading zeros. \<open>range(28)\<close> only yields non-negative ints, so \<open>nat\<close> is enough.
\<close>

definition digit_char :: "nat \<Rightarrow> char" where
  "digit_char d = char_of (48 + d)"

fun str :: "nat \<Rightarrow> string" where
  "str n = (if n < 10 then [digit_char n] else str (n div 10) @ [digit_char (n mod 10)])"

declare str.simps [simp del]

text \<open>\<open>sub in s\<close> on Python strings: \<open>sub\<close> occurs in \<open>s\<close> as a contiguous substring.\<close>

fun str_in :: "string \<Rightarrow> string \<Rightarrow> bool" where
  "str_in sub [] = (sub = [])"
| "str_in sub (c # cs) = (prefix sub (c # cs) \<or> str_in sub cs)"

section \<open>\<open>judge_name\<close>\<close>

text \<open>
  \<^verbatim>\<open>
  def judge_name(name):
      if "embedding" in name:
          return False
      for i in range(28):
          if str(i) in name:
              return False
      return True
  \<close>
  The \<open>for\<close> loop with its early return is \<open>judge_name_loop\<close> over the values of the range.
\<close>

fun judge_name_loop :: "nat list \<Rightarrow> string \<Rightarrow> bool" where
  "judge_name_loop [] name = True"
| "judge_name_loop (i # rest) name =
     (if str_in (str i) name then False else judge_name_loop rest name)"

definition judge_name :: "string \<Rightarrow> bool" where
  "judge_name name =
     (if str_in ''embedding'' name then False
      else judge_name_loop [0..<28] name)"

section \<open>\<open>gpt2_get_params_for_weight_decay_optimization\<close>\<close>

text \<open>
  What the function reads of a (sub)module: its class, only through
  \<open>isinstance(module_, (mpu.LayerNorm, torch.nn.LayerNorm))\<close>, and its \<open>_parameters\<close>
  dictionary, an ordered dictionary from parameter names to parameters or \<open>None\<close>.
  A class deriving from one of the two normalization classes counts as that class,
  as \<open>isinstance\<close> has it. Type \<open>'p\<close> is the type of parameter objects.
\<close>

datatype module_class = Mpu_LayerNorm | Torch_nn_LayerNorm | Other_class

record 'p submodule =
  class_of :: module_class
  parameters' :: "(string \<times> 'p option) list"

definition isinstance_LayerNorm :: "'p submodule \<Rightarrow> bool" where
  "isinstance_LayerNorm module' = (class_of module' \<in> {Mpu_LayerNorm, Torch_nn_LayerNorm})"

text \<open>
  An optimizer group is a dictionary with the key \<open>'params'\<close> and, for the second group
  only, the key \<open>'weight_decay'\<close>: \<open>weight_decay = None\<close> is the absent key.
\<close>

record 'p param_group =
  params :: "'p list"
  weight_decay :: "real option"

text \<open>
  One iteration of the loop over \<open>module.named_modules()\<close>; \<open>extend\<close> appends.
  \<^verbatim>\<open>
  if isinstance(module_, (mpu.LayerNorm, torch.nn.LayerNorm)):
      no_weight_decay_params['params'].extend(
          [p for n, p in list(module_._parameters.items()) if p is not None])
  else:
      weight_decay_params['params'].extend(
          [p for n, p in list(module_._parameters.items())
           if p is not None and n != 'bias'])
      no_weight_decay_params['params'].extend(
          [p for n, p in list(module_._parameters.items())
           if p is not None and n == 'bias'])
  \<close>
\<close>

definition group_module ::
  "string \<times> 'p submodule \<Rightarrow> 'p param_group \<times> 'p param_group \<Rightarrow> 'p param_group \<times> 'p param_group"
where
  "group_module entry groups =
     (case (entry, groups) of
        ((name, module'), (weight_decay_params, no_weight_decay_params)) \<Rightarrow>
          if isinstance_LayerNorm module' then
            (weight_decay_params,
             no_weight_decay_params\<lparr>params := params no_weight_decay_params @
               [the p. (n, p) \<leftarrow> parameters' module', p \<noteq> None]\<rparr>)
          else
            (weight_decay_params\<lparr>params := params weight_decay_params @
               [the p. (n, p) \<leftarrow> parameters' module', p \<noteq> None \<and> n \<noteq> ''bias'']\<rparr>,
             no_weight_decay_params\<lparr>params := params no_weight_decay_params @
               [the p. (n, p) \<leftarrow> parameters' module', p \<noteq> None \<and> n = ''bias'']\<rparr>))"

fun group_modules ::
  "(string \<times> 'p submodule) list \<Rightarrow> 'p param_group \<times> 'p param_group \<Rightarrow> 'p param_group \<times> 'p param_group"
where
  "group_modules [] groups = groups"
| "group_modules (entry # rest) groups = group_modules rest (group_module entry groups)"

text \<open>
  The function itself. \<open>named_modules\<close> is the framework's enumeration of a module and
  its submodules with their dotted names; it is not code of this file and is taken as a
  parameter; \<open>top_module\<close> is the argument \<open>module\<close>. The result is the line written by \<open>print\<close> and the returned pair.
\<close>

definition gpt2_get_params_for_weight_decay_optimization ::
  "('m \<Rightarrow> (string \<times> 'p submodule) list) \<Rightarrow> 'm \<Rightarrow> string \<times> ('p param_group \<times> 'p param_group)"
where
  "gpt2_get_params_for_weight_decay_optimization named_modules top_module =
     (let weight_decay_params = \<lparr>params = [], weight_decay = None\<rparr>;
          no_weight_decay_params = \<lparr>params = [], weight_decay = Some 0.0\<rparr>;
          (weight_decay_params, no_weight_decay_params) =
             group_modules (named_modules top_module) (weight_decay_params, no_weight_decay_params)
      in (str (length (params weight_decay_params)) @ '' '' @
          str (length (params no_weight_decay_params)) @ [CHR 0x0A],
          (weight_decay_params, no_weight_decay_params)))"

text \<open>
  The parameters of a module, for the statements below: every entry of the \<open>_parameters\<close>
  dictionary of every enumerated submodule that is not \<open>None\<close>, in enumeration order.
\<close>

definition module_parameters :: "(string \<times> 'p submodule) list \<Rightarrow> 'p list" where
  "module_parameters subs = [the p. (name, m) \<leftarrow> subs, (n, p) \<leftarrow> parameters' m, p \<noteq> None]"

definition no_decay_slot :: "'p submodule \<Rightarrow> string \<Rightarrow> bool" where
  "no_decay_slot m n = (isinstance_LayerNorm m \<or> n = ''bias'')"

text \<open>A small module list on which the statements are evaluated.\<close>

definition example_modules :: "(string \<times> nat submodule) list" where
  "example_modules =
     [([], \<lparr>class_of = Other_class, parameters' = []\<rparr>),
      (''dense'', \<lparr>class_of = Other_class,
          parameters' = [(''weight'', Some 1), (''bias'', Some 2), (''extra'', None)]\<rparr>),
      (''norm'', \<lparr>class_of = Mpu_LayerNorm,
          parameters' = [(''weight'', Some 3), (''bias'', Some 4)]\<rparr>),
      (''norm2'', \<lparr>class_of = Torch_nn_LayerNorm,
          parameters' = [(''weight'', Some 5), (''bias'', None)]\<rparr>)]"

text \<open>
  A parameter object as far as the statements below need it: its identity and its
  \<open>requires_grad\<close> flag (a parameter is trainable when the flag is set). The function
  never reads the flag. In \<open>shared_modules\<close> the trainable parameter \<open>1\<close> is registered
  twice, as \<open>a.weight\<close> and as \<open>b.bias\<close>, and the parameter \<open>2\<close> is frozen.
\<close>

datatype parameter = Parameter (ident: nat) (requires_grad: bool)

definition shared_modules :: "(string \<times> parameter submodule) list" where
  "shared_modules =
     [(''a'', \<lparr>class_of = Other_class, parameters' = [(''weight'', Some (Parameter 1 True))]\<rparr>),
      (''b'', \<lparr>class_of = Other_class,
          parameters' = [(''weight'', Some (Parameter 2 False)), (''bias'', Some (Parameter 1 True))]\<rparr>)]"

section \<open>The framework, as far as the two model classes use it\<close>

text \<open>
  The classes compute nothing themselves: every tensor operation is a call into
  \<open>torch\<close> or \<open>mpu\<close>. Those calls are taken as a parameter. Type \<open>'o\<close> is the type of
  references to framework objects (tensors, modules), \<open>'w\<close> the state of the framework
  (parameter storage, random number generators, process groups) and \<open>'e\<close> its exceptions.

  A Python value is a literal of this file, the closure \<open>init_\<close> of \<open>init_method_normal\<close>
  with the \<open>std\<close> it captured, or a framework object. Floats are carried, never computed with.
\<close>

datatype 'o pyval =
    PBool bool
  | PInt int
  | PFloat real
  | PInit real
  | PObj 'o

text \<open>
  The framework calls of this file, with their arguments in source order. \<open>F_linear\<close>
  carries the optional \<open>bias\<close> argument of \<open>F.linear\<close>: \<open>None\<close> when the call passes none.
\<close>

datatype 'o call =
    Mpu_VocabParallelEmbedding "'o pyval" "'o pyval" "'o pyval"
  | Torch_nn_Embedding "'o pyval" "'o pyval"
  | Torch_nn_Dropout "'o pyval"
  | Mpu_GPT2ParallelTransformer "'o pyval" "'o pyval" "'o pyval" "'o pyval" "'o pyval" "'o pyval" "'o pyval"
  | Torch_nn_Linear "'o pyval" "'o pyval"
  | Torch_nn_init_normal "'o pyval" "'o pyval" "'o pyval"
  | Call_object "'o pyval" "'o pyval list"
  | Tensor_add "'o pyval" "'o pyval"
  | Mpu_copy_to_model_parallel_region "'o pyval"
  | F_linear "'o pyval" "'o pyval" "'o pyval option"
  | Mpu_gather_from_model_parallel_region "'o pyval"

text \<open>
  \<open>exec\<close> runs one call in a framework state: it returns an object or raises, and leaves
  a new state. \<open>attribute\<close> reads an attribute of a framework object (here only \<open>.weight\<close>).
\<close>

record ('o, 'w, 'e) framework =
  exec :: "'o call \<Rightarrow> 'w \<Rightarrow> ('e + 'o) \<times> 'w"
  attribute :: "'o \<Rightarrow> string \<Rightarrow> 'e + 'o"

text \<open>
  Errors: \<open>AttributeError\<close> is raised by an attribute read of this file that finds no such
  attribute; \<open>Framework\<close> wraps an exception raised inside a framework call.
\<close>

datatype 'e error = AttributeError string | Framework 'e

text \<open>
  A statement of this file runs in a framework state and a log of the framework calls made
  so far; it returns a value or raises, and leaves the new state and log.
\<close>

type_synonym ('a, 'o, 'w, 'e) prog = "'w \<times> 'o call list \<Rightarrow> ('e error + 'a) \<times> 'w \<times> 'o call list"

definition py_return :: "'a \<Rightarrow> ('a, 'o, 'w, 'e) prog" where
  "py_return a = (\<lambda>s. (Inr a, s))"

definition py_raise :: "'e error \<Rightarrow> ('a, 'o, 'w, 'e) prog" where
  "py_raise e = (\<lambda>s. (Inl e, s))"

definition py_bind :: "('a, 'o, 'w, 'e) prog \<Rightarrow> ('a \<Rightarrow> ('b, 'o, 'w, 'e) prog) \<Rightarrow> ('b, 'o, 'w, 'e) prog" where
  "py_bind m f = (\<lambda>s. case m s of (Inl e, s') \<Rightarrow> (Inl e, s') | (Inr a, s') \<Rightarrow> f a s')"

definition call :: "('o, 'w, 'e) framework \<Rightarrow> 'o call \<Rightarrow> ('o pyval, 'o, 'w, 'e) prog" where
  "call fw c = (\<lambda>(w, calls).
     case exec fw c w of
       (Inl e, w') \<Rightarrow> (Inl (Framework e), (w', calls @ [c]))
     | (Inr obj, w') \<Rightarrow> (Inr (PObj obj), (w', calls @ [c])))"

section \<open>\<open>init_method_normal\<close>\<close>

text \<open>
  \<^verbatim>\<open>
  def init_method_normal(std=0.02):
      def init_(tensor):
          return torch.nn.init.normal_(tensor, mean=0.0, std=std)
      return init_
  \<close>
  \<open>init'\<close> is the inner function \<open>init_\<close> with the \<open>std\<close> it captured; the closure that
  \<open>init_method_normal\<close> returns is the value \<open>PInit std\<close>.
\<close>

definition init' :: "('o, 'w, 'e) framework \<Rightarrow> real \<Rightarrow> 'o pyval \<Rightarrow> ('o pyval, 'o, 'w, 'e) prog" where
  "init' fw std tensor = call fw (Torch_nn_init_normal tensor (PFloat 0.0) (PFloat std))"

definition init_method_normal :: "real \<Rightarrow> 'o pyval" where
  "init_method_normal std = PInit std"

section \<open>Calls, attributes and instances\<close>

text \<open>\<open>f(args)\<close>: the closure \<open>init_\<close> runs its body, a framework object is called.\<close>

fun py_call :: "('o, 'w, 'e) framework \<Rightarrow> 'o pyval \<Rightarrow> 'o pyval list \<Rightarrow> ('o pyval, 'o, 'w, 'e) prog" where
  "py_call fw (PInit std) [tensor] = init' fw std tensor"
| "py_call fw f args = call fw (Call_object f args)"

text \<open>\<open>x.name\<close> on a value that a framework call returned.\<close>

fun object_attribute :: "('o, 'w, 'e) framework \<Rightarrow> 'o pyval \<Rightarrow> string \<Rightarrow> ('o pyval, 'o, 'w, 'e) prog" where
  "object_attribute fw (PObj obj) name =
     (case attribute fw obj name of Inl e \<Rightarrow> py_raise (Framework e) | Inr v \<Rightarrow> py_return (PObj v))"
| "object_attribute fw v name = py_raise (AttributeError name)"

text \<open>
  \<open>if v:\<close> on the values that this file stores. Every instance that a constructor builds
  holds a \<open>PBool\<close> under \<open>parallel_output\<close>, and the runs in the statements below only
  test such flags. The truth value of a framework object is the framework's
  (\<open>Tensor.__bool__\<close> may return false or raise) and is not modelled: the last clause takes
  Python's default for an object.
\<close>

fun truthy :: "'o pyval \<Rightarrow> bool" where
  "truthy (PBool b) = b"
| "truthy (PInt i) = (i \<noteq> 0)"
| "truthy (PFloat r) = (r \<noteq> 0)"
| "truthy (PInit std) = True"
| "truthy (PObj obj) = True"

text \<open>
  An instance under construction and after: its attributes, in assignment order.
  \<open>self.name = v\<close> is \<open>setattr\<close>, \<open>self.name\<close> is \<open>getattr\<close>, which raises \<open>AttributeError\<close>
  for a name never assigned, as \<open>torch.nn.Module.__getattr__\<close> does.
\<close>

type_synonym 'o attributes = "(string \<times> 'o pyval) list"

definition setattr :: "'o attributes \<Rightarrow> string \<Rightarrow> 'o pyval \<Rightarrow> 'o attributes" where
  "setattr self name v = AList.update name v self"

definition getattr :: "'o attributes \<Rightarrow> string \<Rightarrow> ('o pyval, 'o, 'w, 'e) prog" where
  "getattr self name =
     (case map_of self name of None \<Rightarrow> py_raise (AttributeError name) | Some v \<Rightarrow> py_return v)"

section \<open>Calling a function: binding arguments to parameters\<close>

text \<open>
  Before the body of a \<open>def\<close> runs, Python binds the arguments of the call to the
  parameters of the signature, and raises \<open>TypeError\<close> when that fails: too many
  positional arguments, a keyword that names no parameter, a parameter given twice, a
  parameter without default given no value.
\<close>

datatype type_error =
    Too_many_positional
  | Unexpected_keyword string
  | Multiple_values string
  | Missing_argument string

text \<open>A signature: the parameters in order (without \<open>self\<close>), each with its default if it has one.\<close>

type_synonym 'v signature = "(string \<times> 'v option) list"




text \<open>
  The value of a parameter in the body: the value bound to it, else its default, else the
  call fails.
\<close>

definition parameter :: "'v signature \<Rightarrow> (string \<times> 'v) list \<Rightarrow> string \<Rightarrow> type_error + 'v" where
  "parameter sig bound name =
     (case map_of bound name of
        Some v \<Rightarrow> Inr v
      | None \<Rightarrow>
          (case map_of sig name of
             Some (Some dflt) \<Rightarrow> Inr dflt
           | _ \<Rightarrow> Inl (Missing_argument name)))"


section \<open>\<open>GPT2Model\<close>\<close>

text \<open>
  The arguments of \<open>__init__\<close> after binding, so with the defaults
  \<open>checkpoint_num_layers=1\<close> and \<open>parallel_output=True\<close> filled in where the caller gave none.
\<close>

record 'o GPT2Model_args =
  num_layers :: "'o pyval"
  vocab_size :: "'o pyval"
  hidden_size :: "'o pyval"
  num_attention_heads :: "'o pyval"
  embedding_dropout_prob :: "'o pyval"
  attention_dropout_prob :: "'o pyval"
  output_dropout_prob :: "'o pyval"
  max_sequence_length :: "'o pyval"
  checkpoint_activations :: "'o pyval"
  checkpoint_num_layers :: "'o pyval"
  parallel_output :: bool

text \<open>\<open>GPT2Model.__init__\<close>, statement by statement; \<open>super().__init__()\<close> leaves no attribute.\<close>

definition GPT2Model_init ::
  "('o, 'w, 'e) framework \<Rightarrow> 'o GPT2Model_args \<Rightarrow> ('o attributes, 'o, 'w, 'e) prog"
where
  "GPT2Model_init fw args =
     (let self = [];
          self = setattr self ''parallel_output'' (PBool (parallel_output args));
          init_method = init_method_normal 0.02
      in
      py_bind (call fw (Mpu_VocabParallelEmbedding (vocab_size args) (hidden_size args) init_method))
        (\<lambda>v. let self = setattr self ''word_embeddings'' v in
      py_bind (call fw (Torch_nn_Embedding (max_sequence_length args) (hidden_size args)))
        (\<lambda>v. let self = setattr self ''position_embeddings'' v in
      py_bind (getattr self ''position_embeddings'') (\<lambda>position_embeddings.
      py_bind (object_attribute fw position_embeddings ''weight'') (\<lambda>weight.
      py_bind (py_call fw init_method [weight]) (\<lambda>_.
      py_bind (call fw (Torch_nn_Dropout (embedding_dropout_prob args)))
        (\<lambda>v. let self = setattr self ''embedding_dropout'' v in
      py_bind (call fw (Mpu_GPT2ParallelTransformer (num_layers args) (hidden_size args)
                 (num_attention_heads args) (attention_dropout_prob args)
                 (output_dropout_prob args) (checkpoint_activations args)
                 (checkpoint_num_layers args)))
        (\<lambda>v. let self = setattr self ''transformer'' v in
      py_return self))))))))"



text \<open>\<open>GPT2Model.forward\<close>.\<close>

definition GPT2Model_forward ::
  "('o, 'w, 'e) framework \<Rightarrow> 'o attributes \<Rightarrow> 'o pyval \<Rightarrow> 'o pyval \<Rightarrow> 'o pyval \<Rightarrow> ('o pyval, 'o, 'w, 'e) prog"
where
  "GPT2Model_forward fw self input_ids position_ids attention_mask =
     py_bind (getattr self ''word_embeddings'') (\<lambda>word_embeddings.
     py_bind (py_call fw word_embeddings [input_ids]) (\<lambda>words_embeddings.
     py_bind (getattr self ''position_embeddings'') (\<lambda>position_embeddings'.
     py_bind (py_call fw position_embeddings' [position_ids]) (\<lambda>position_embeddings.
     py_bind (call fw (Tensor_add words_embeddings position_embeddings)) (\<lambda>embeddings.
     py_bind (getattr self ''embedding_dropout'') (\<lambda>embedding_dropout.
     py_bind (py_call fw embedding_dropout [embeddings]) (\<lambda>embeddings.
     py_bind (getattr self ''transformer'') (\<lambda>transformer.
     py_bind (py_call fw transformer [embeddings, attention_mask]) (\<lambda>transformer_output.
     py_bind (call fw (Mpu_copy_to_model_parallel_region transformer_output))
       (\<lambda>transformer_output_parallel.
     py_bind (getattr self ''word_embeddings'') (\<lambda>word_embeddings.
     py_bind (object_attribute fw word_embeddings ''weight'') (\<lambda>weight.
     py_bind (call fw (F_linear transformer_output_parallel weight None)) (\<lambda>logits_parallel.
     py_bind (getattr self ''parallel_output'') (\<lambda>parallel_output.
     if truthy parallel_output then py_return logits_parallel
     else call fw (Mpu_gather_from_model_parallel_region logits_parallel)))))))))))))))"



section \<open>\<open>GPT2Model_C\<close>\<close>

text \<open>
  The arguments of \<open>__init__\<close> after binding: those of \<open>GPT2Model\<close> and \<open>num_labels\<close>, which
  the signature has in fourth place.
\<close>

record 'o GPT2Model_C_args = "'o GPT2Model_args" +
  num_labels :: "'o pyval"

text \<open>
  \<open>GPT2Model_C.__init__\<close>: the statements of \<open>GPT2Model.__init__\<close>, then
  \<^verbatim>\<open>
  self.linear = torch.nn.Linear(self.hidden_size, self.hidden_size)
  self.classifier = torch.nn.Linear(self.hidden_size, num_labels)
  \<close>
  whose arguments are attribute reads of \<open>self\<close>, evaluated left to right before the call.
\<close>

definition GPT2Model_C_init ::
  "('o, 'w, 'e) framework \<Rightarrow> 'o GPT2Model_C_args \<Rightarrow> ('o attributes, 'o, 'w, 'e) prog"
where
  "GPT2Model_C_init fw args =
     (let self = [];
          self = setattr self ''parallel_output'' (PBool (parallel_output args));
          init_method = init_method_normal 0.02
      in
      py_bind (call fw (Mpu_VocabParallelEmbedding (vocab_size args) (hidden_size args) init_method))
        (\<lambda>v. let self = setattr self ''word_embeddings'' v in
      py_bind (call fw (Torch_nn_Embedding (max_sequence_length args) (hidden_size args)))
        (\<lambda>v. let self = setattr self ''position_embeddings'' v in
      py_bind (getattr self ''position_embeddings'') (\<lambda>position_embeddings.
      py_bind (object_attribute fw position_embeddings ''weight'') (\<lambda>weight.
      py_bind (py_call fw init_method [weight]) (\<lambda>_.
      py_bind (call fw (Torch_nn_Dropout (embedding_dropout_prob args)))
        (\<lambda>v. let self = setattr self ''embedding_dropout'' v in
      py_bind (call fw (Mpu_GPT2ParallelTransformer (num_layers args) (hidden_size args)
                 (num_attention_heads args) (attention_dropout_prob args)
                 (output_dropout_prob args) (checkpoint_activations args)
                 (checkpoint_num_layers args)))
        (\<lambda>v. let self = setattr self ''transformer'' v in
      py_bind (getattr self ''hidden_size'') (\<lambda>in_features.
      py_bind (getattr self ''hidden_size'') (\<lambda>out_features.
      py_bind (call fw (Torch_nn_Linear in_features out_features))
        (\<lambda>v. let self = setattr self ''linear'' v in
      py_bind (getattr self ''hidden_size'') (\<lambda>in_features.
      py_bind (call fw (Torch_nn_Linear in_features (num_labels args)))
        (\<lambda>v. let self = setattr self ''classifier'' v in
      py_return self)))))))))))))"



text \<open>\<open>GPT2Model_C.forward\<close>.\<close>

definition GPT2Model_C_forward ::
  "('o, 'w, 'e) framework \<Rightarrow> 'o attributes \<Rightarrow> 'o pyval \<Rightarrow> 'o pyval \<Rightarrow> 'o pyval \<Rightarrow> ('o pyval, 'o, 'w, 'e) prog"
where
  "GPT2Model_C_forward fw self input_ids position_ids attention_mask =
     py_bind (getattr self ''word_embeddings'') (\<lambda>word_embeddings.
     py_bind (py_call fw word_embeddings [input_ids]) (\<lambda>words_embeddings.
     py_bind (getattr self ''position_embeddings'') (\<lambda>position_embeddings'.
     py_bind (py_call fw position_embeddings' [position_ids]) (\<lambda>position_embeddings.
     py_bind (call fw (Tensor_add words_embeddings position_embeddings)) (\<lambda>embeddings.
     py_bind (getattr self ''embedding_dropout'') (\<lambda>embedding_dropout.
     py_bind (py_call fw embedding_dropout [embeddings]) (\<lambda>embeddings.
     py_bind (getattr self ''transformer'') (\<lambda>transformer.
     py_bind (py_call fw transformer [embeddings, attention_mask]) (\<lambda>transformer_output.
     py_bind (call fw (Mpu_copy_to_model_parallel_region transformer_output))
       (\<lambda>transformer_output_parallel.
     py_bind (getattr self ''linear'') (\<lambda>linear.
     py_bind (py_call fw linear [transformer_output_parallel]) (\<lambda>pooler.
     py_bind (getattr self ''classifier'') (\<lambda>classifier.
     py_bind (py_call fw classifier [pooler]) (\<lambda>gpt_classifier_output.
     let logits_parallel = gpt_classifier_output in
     py_bind (getattr self ''parallel_output'') (\<lambda>parallel_output.
     if truthy parallel_output then py_return logits_parallel
     else call fw (Mpu_gather_from_model_parallel_region logits_parallel))))))))))))))))"



section \<open>A framework and arguments on which the statements are evaluated\<close>

text \<open>
  Objects are numbered in the order the framework creates them; the state is the number of
  objects created so far. Every call returns a new object, except that \<open>torch.nn.Dropout\<close>
  rejects a number outside \<open>[0, 1]\<close> with a \<open>ValueError\<close>, as the library does.
\<close>

datatype ref = Ref nat | Attr ref string

fun example_exec :: "ref call \<Rightarrow> nat \<Rightarrow> (string + ref) \<times> nat" where
  "example_exec (Torch_nn_Dropout (PFloat p)) w =
     (if p < 0 \<or> 1 < p then (Inl ''ValueError'', w) else (Inr (Ref w), Suc w))"
| "example_exec (Torch_nn_Dropout (PInt p)) w =
     (if p < 0 \<or> 1 < p then (Inl ''ValueError'', w) else (Inr (Ref w), Suc w))"
| "example_exec c w = (Inr (Ref w), Suc w)"

definition example_framework :: "(ref, nat, string) framework" where
  "example_framework = \<lparr>exec = example_exec, attribute = (\<lambda>obj name. Inr (Attr obj name))\<rparr>"

definition example_args :: "ref GPT2Model_args" where
  "example_args =
     \<lparr>num_layers = PInt 2, vocab_size = PInt 16, hidden_size = PInt 8,
      num_attention_heads = PInt 2, embedding_dropout_prob = PFloat 0.1,
      attention_dropout_prob = PFloat 0.1, output_dropout_prob = PFloat 0.1,
      max_sequence_length = PInt 32, checkpoint_activations = PBool False,
      checkpoint_num_layers = PInt 1, parallel_output = False\<rparr>"

definition example_C_args :: "ref GPT2Model_C_args" where
  "example_C_args =
     \<lparr>num_layers = PInt 2, vocab_size = PInt 16, hidden_size = PInt 8,
      num_attention_heads = PInt 2, embedding_dropout_prob = PFloat 0.1,
      attention_dropout_prob = PFloat 0.1, output_dropout_prob = PFloat 0.1,
      max_sequence_length = PInt 32, checkpoint_activations = PBool False,
      checkpoint_num_layers = PInt 1, parallel_output = False, num_labels = PInt 3\<rparr>"


text \<open>The model built from \<open>example_args\<close> in the state where three input tensors exist.\<close>

definition example_self :: "ref attributes" where
  "example_self =
     [(''parallel_output'', PBool False), (''word_embeddings'', PObj (Ref 3)),
      (''position_embeddings'', PObj (Ref 4)), (''embedding_dropout'', PObj (Ref 6)),
      (''transformer'', PObj (Ref 7))]"

text \<open>
  The attributes that \<open>GPT2Model_C.forward\<close> reads, as the statements of
  \<open>GPT2Model_C.__init__\<close> name them. No run of \<open>GPT2Model_C.__init__\<close> returns this list
  (see the section on the constructors); it only serves to run \<open>forward\<close>.
\<close>

definition example_C_self :: "ref attributes" where
  "example_C_self = example_self @ [(''linear'', PObj (Ref 8)), (''classifier'', PObj (Ref 9))]"

section \<open>Notions used in the statements\<close>

text \<open>The framework call that \<open>f(args)\<close> makes, see \<open>py_call\<close>.\<close>

fun py_call_op :: "'o pyval \<Rightarrow> 'o pyval list \<Rightarrow> 'o call" where
  "py_call_op (PInit std) [tensor] = Torch_nn_init_normal tensor (PFloat 0.0) (PFloat std)"
| "py_call_op f args = Call_object f args"






section \<open>Properties of \<open>judge_name\<close>\<close>

lemma str_in_iff: "str_in sub s \<longleftrightarrow> (\<exists>ps ss. s = ps @ sub @ ss)"
proof (induction s)
  case Nil
  then show ?case by auto
next
  case (Cons c cs)
  show ?case
  proof
    assume "str_in sub (c # cs)"
    then consider "prefix sub (c # cs)" | "str_in sub cs" by auto
    then show "\<exists>ps ss. c # cs = ps @ sub @ ss"
    proof cases
      case 1
      then obtain zs where "c # cs = sub @ zs" by (auto simp: prefix_def)
      then have "c # cs = [] @ sub @ zs" by simp
      then show ?thesis by blast
    next
      case 2
      with Cons.IH obtain ps ss where "cs = ps @ sub @ ss" by blast
      then have "c # cs = (c # ps) @ sub @ ss" by simp
      then show ?thesis by blast
    qed
  next
    assume "\<exists>ps ss. c # cs = ps @ sub @ ss"
    then obtain ps ss where eq: "c # cs = ps @ sub @ ss" by blast
    show "str_in sub (c # cs)"
    proof (cases ps)
      case Nil
      with eq have "prefix sub (c # cs)" by (simp add: prefix_def)
      then show ?thesis by simp
    next
      case (Cons p ps')
      with eq have "cs = ps' @ sub @ ss" by simp
      with Cons.IH have "str_in sub cs" by blast
      then show ?thesis by simp
    qed
  qed
qed

lemma digit_chars: "map digit_char [0..<10] = ''0123456789''"
  by code_simp

lemma digit_char_digit: "d < 10 \<Longrightarrow> digit_char d \<in> set ''0123456789''"
proof -
  assume "d < 10"
  then have "digit_char d \<in> set (map digit_char [0..<10])" by simp
  then show ?thesis by (simp only: digit_chars)
qed

lemma digit_is_digit_char: "c \<in> set ''0123456789'' \<Longrightarrow> \<exists>d<10. c = digit_char d"
proof -
  assume "c \<in> set ''0123456789''"
  then have "c \<in> set (map digit_char [0..<10])" by (simp only: digit_chars)
  then show ?thesis by auto
qed

lemma str_small: "d < 10 \<Longrightarrow> str d = [digit_char d]"
  by (subst str.simps) simp

lemma str_digits: "set (str n) \<subseteq> set ''0123456789'' \<and> str n \<noteq> []"
proof (induction n rule: str.induct)
  case (1 n)
  show ?case
  proof (cases "n < 10")
    case True
    then show ?thesis using digit_char_digit[of n] by (subst str.simps, subst (2) str.simps) simp
  next
    case False
    then show ?thesis using 1 digit_char_digit[of "n mod 10"] by (subst str.simps, subst (2) str.simps) simp
  qed
qed

lemma judge_name_loop_iff: "judge_name_loop is name \<longleftrightarrow> (\<forall>i\<in>set is. \<not> str_in (str i) name)"
  by (induction "is") auto


lemma digit_loop:
  "(\<exists>i\<in>set [0..<28]. str_in (str i) name) \<longleftrightarrow> (\<exists>c\<in>set name. c \<in> set ''0123456789'')"
proof
  assume "\<exists>i\<in>set [0..<28]. str_in (str i) name"
  then obtain i ps ss where eq: "name = ps @ str i @ ss" by (auto simp: str_in_iff)
  from str_digits[of i] obtain c where c: "c \<in> set (str i)" "c \<in> set ''0123456789''"
    by (cases "str i") auto
  from c(1) eq have "c \<in> set name" by simp
  with c(2) show "\<exists>c\<in>set name. c \<in> set ''0123456789''" by blast
next
  assume "\<exists>c\<in>set name. c \<in> set ''0123456789''"
  then obtain c where c: "c \<in> set name" "c \<in> set ''0123456789''" by blast
  from digit_is_digit_char[OF c(2)] obtain d where d: "d < 10" "c = digit_char d" by blast
  from c(1) obtain ps ss where "name = ps @ c # ss" by (auto dest: split_list)
  then have "name = ps @ str d @ ss" using d by (simp add: str_small)
  then have "str_in (str d) name" unfolding str_in_iff by blast
  moreover from d(1) have "d \<in> set [0..<28]" by simp
  ultimately show "\<exists>i\<in>set [0..<28]. str_in (str i) name" by blast
qed

text \<open>
  Claim C10. For every string \<open>name\<close>, \<open>judge_name name\<close> is \<open>True\<close> if and only if
  \<open>name\<close> contains neither the substring \<open>embedding\<close> nor any of the decimal digit
  characters \<open>0\<close> to \<open>9\<close>.
\<close>

theorem judge_name_iff:
  "judge_name name \<longleftrightarrow>
     \<not> (\<exists>ps ss. name = ps @ ''embedding'' @ ss) \<and> (\<forall>c\<in>set name. c \<notin> set ''0123456789'')"
proof -
  have "judge_name name \<longleftrightarrow>
      \<not> str_in ''embedding'' name \<and> \<not> (\<exists>i\<in>set [0..<28]. str_in (str i) name)"
    unfolding judge_name_def judge_name_loop_iff by auto
  also have "\<dots> \<longleftrightarrow> \<not> (\<exists>ps ss. name = ps @ ''embedding'' @ ss) \<and> (\<forall>c\<in>set name. c \<notin> set ''0123456789'')"
    using digit_loop[of name] str_in_iff[of "''embedding''" name] by blast
  finally show ?thesis .
qed

theorem judge_name_iff_witness:
  "judge_name ''classifier'' \<and> \<not> judge_name ''transformer.layers.3.weight'' \<and> \<not> judge_name ''word_embeddings''"
proof -
  have 1: "\<forall>c\<in>set ''classifier''. c \<notin> set ''0123456789''" by simp
  have 2: "\<not> (\<exists>ps ss. ''classifier'' = ps @ ''embedding'' @ ss)"
    unfolding str_in_iff[symmetric] by simp
  have 3: "\<not> (\<forall>c\<in>set ''transformer.layers.3.weight''. c \<notin> set ''0123456789'')" by simp
  have 4: "''word_embeddings'' = ''word_'' @ ''embedding'' @ ''s''" by simp
  show ?thesis
    using 1 2 3 4 judge_name_iff[of "''classifier''"] judge_name_iff[of "''transformer.layers.3.weight''"]
      judge_name_iff[of "''word_embeddings''"] by blast
qed

section \<open>Properties of the parameter grouping\<close>

lemma group_module_params:
  "group_module (name, m) (wd, nwd) =
     (wd\<lparr>params := params wd @ [the p. (n, p) \<leftarrow> parameters' m, p \<noteq> None \<and> \<not> no_decay_slot m n]\<rparr>,
      nwd\<lparr>params := params nwd @ [the p. (n, p) \<leftarrow> parameters' m, p \<noteq> None \<and> no_decay_slot m n]\<rparr>)"
  by (simp add: group_module_def no_decay_slot_def)

lemma group_modules_params:
  "group_modules subs (wd, nwd) =
     (wd\<lparr>params := params wd @
        [the p. (name, m) \<leftarrow> subs, (n, p) \<leftarrow> parameters' m, p \<noteq> None \<and> \<not> no_decay_slot m n]\<rparr>,
      nwd\<lparr>params := params nwd @
        [the p. (name, m) \<leftarrow> subs, (n, p) \<leftarrow> parameters' m, p \<noteq> None \<and> no_decay_slot m n]\<rparr>)"
proof (induction subs arbitrary: wd nwd)
  case Nil
  show ?case by simp
next
  case (Cons entry rest)
  obtain name m where entry: "entry = (name, m)" by (cases entry)
  show ?case
    unfolding entry group_modules.simps group_module_params Cons.IH by simp
qed

lemma slots_split:
  "mset [the p. (n, p) \<leftarrow> ps, p \<noteq> None \<and> \<not> Q n] + mset [the p. (n, p) \<leftarrow> ps, p \<noteq> None \<and> Q n]
     = mset [the p. (n, p) \<leftarrow> ps, p \<noteq> None]"
  by (induction ps) auto

lemma partition_mset:
  "mset [the p. (name, m) \<leftarrow> subs, (n, p) \<leftarrow> parameters' m, p \<noteq> None \<and> \<not> no_decay_slot m n] +
   mset [the p. (name, m) \<leftarrow> subs, (n, p) \<leftarrow> parameters' m, p \<noteq> None \<and> no_decay_slot m n]
   = mset (module_parameters subs)"
proof (induction subs)
  case Nil
  show ?case by (simp add: module_parameters_def)
next
  case (Cons entry rest)
  obtain name m where entry: "entry = (name, m)" by (cases entry)
  have "mset (module_parameters (entry # rest)) =
      mset [the p. (n, p) \<leftarrow> parameters' m, p \<noteq> None] + mset (module_parameters rest)"
    by (simp add: module_parameters_def entry)
  then show ?case
    unfolding Cons.IH[symmetric] slots_split[where ps="parameters' m" and Q="no_decay_slot m", symmetric]
    by (simp add: entry)
qed

lemma partition_disjoint:
  assumes "mset xs + mset ys = mset zs" "distinct zs"
  shows "set xs \<inter> set ys = {}"
proof -
  from assms have "distinct (xs @ ys)"
    by (metis distinct_count_atmost_1 mset_append set_mset_mset)
  then show ?thesis by simp
qed

text \<open>
  Claim C2, as amended. The function returns two groups. The first has no \<open>weight_decay\<close>
  key, the second carries \<open>weight_decay = 0.0\<close>. The second holds exactly the non-\<open>None\<close>
  entries of the \<open>_parameters\<close> of normalization submodules and the non-\<open>None\<close> entries
  named \<open>bias\<close> of the other submodules; the first holds exactly the remaining non-\<open>None\<close>
  entries. Entries are taken as registered, trainable or not. Together the two lists hold
  every entry of the module once (as multisets), so each entry lands in exactly one group;
  a parameter object lands in exactly one group where no parameter object is registered
  under two entries.
\<close>

theorem gpt2_get_params_partition:
  "case snd (gpt2_get_params_for_weight_decay_optimization named_modules top_module) of
     (weight_decay_params, no_weight_decay_params) \<Rightarrow>
       weight_decay weight_decay_params = None \<and>
       weight_decay no_weight_decay_params = Some 0 \<and>
       params no_weight_decay_params =
         [the p. (name, m) \<leftarrow> named_modules top_module, (n, p) \<leftarrow> parameters' m,
            p \<noteq> None \<and> (isinstance_LayerNorm m \<or> n = ''bias'')] \<and>
       params weight_decay_params =
         [the p. (name, m) \<leftarrow> named_modules top_module, (n, p) \<leftarrow> parameters' m,
            p \<noteq> None \<and> \<not> (isinstance_LayerNorm m \<or> n = ''bias'')] \<and>
       mset (params weight_decay_params) + mset (params no_weight_decay_params) =
         mset (module_parameters (named_modules top_module)) \<and>
       (distinct (module_parameters (named_modules top_module)) \<longrightarrow>
          set (params weight_decay_params) \<inter> set (params no_weight_decay_params) = {})"
proof -
  let ?subs = "named_modules top_module"
  let ?wd = "[the p. (name, m) \<leftarrow> ?subs, (n, p) \<leftarrow> parameters' m, p \<noteq> None \<and> \<not> no_decay_slot m n]"
  let ?nwd = "[the p. (name, m) \<leftarrow> ?subs, (n, p) \<leftarrow> parameters' m, p \<noteq> None \<and> no_decay_slot m n]"
  have run: "snd (gpt2_get_params_for_weight_decay_optimization named_modules top_module) =
      (\<lparr>params = ?wd, weight_decay = None\<rparr>, \<lparr>params = ?nwd, weight_decay = Some 0\<rparr>)"
    by (simp add: gpt2_get_params_for_weight_decay_optimization_def group_modules_params)
  have part: "mset ?wd + mset ?nwd = mset (module_parameters ?subs)"
    by (rule partition_mset)
  have disj: "distinct (module_parameters ?subs) \<longrightarrow> set ?wd \<inter> set ?nwd = {}"
    using partition_disjoint[OF part] by blast
  show ?thesis
    unfolding run using part disj by (simp add: no_decay_slot_def)
qed

theorem gpt2_get_params_partition_witness:
  "distinct (module_parameters example_modules) \<and>
   snd (gpt2_get_params_for_weight_decay_optimization (\<lambda>m. m) example_modules) =
     (\<lparr>params = [1], weight_decay = None\<rparr>, \<lparr>params = [2, 3, 4, 5], weight_decay = Some 0\<rparr>) \<and>
   set [1::nat] \<inter> set [2, 3, 4, 5] = {}"
  using gpt2_get_params_partition[of "\<lambda>m. m" example_modules]
  by (simp add: example_modules_def module_parameters_def isinstance_LayerNorm_def
      gpt2_get_params_for_weight_decay_optimization_def group_module_def)

text \<open>
  Claim C2 as stated fails: in \<open>shared_modules\<close> the parameter registered as \<open>a.weight\<close> and
  as \<open>b.bias\<close> lands in both groups, and the frozen parameter is grouped like a trainable
  one.
\<close>

theorem gpt2_get_params_shared_parameter:
  "snd (gpt2_get_params_for_weight_decay_optimization (\<lambda>m. m) shared_modules) =
     (\<lparr>params = [Parameter 1 True, Parameter 2 False], weight_decay = None\<rparr>,
      \<lparr>params = [Parameter 1 True], weight_decay = Some 0\<rparr>) \<and>
   Parameter 1 True \<in> set [Parameter 1 True, Parameter 2 False] \<inter> set [Parameter 1 True] \<and>
   \<not> requires_grad (Parameter 2 False)"
  by (simp add: shared_modules_def isinstance_LayerNorm_def
      gpt2_get_params_for_weight_decay_optimization_def group_module_def)

section \<open>Running the statements of the model classes\<close>

lemma py_bind_return [simp]: "py_bind (py_return a) f = f a"
  by (simp add: py_bind_def py_return_def)

lemma py_bind_raise [simp]: "py_bind (py_raise e) f = py_raise e"
  by (simp add: py_bind_def py_raise_def)

lemma py_bind_assoc: "py_bind (py_bind m f) g = py_bind m (\<lambda>x. py_bind (f x) g)"
  by (auto simp: py_bind_def split: prod.splits sum.splits)

lemma getattr_setattr [simp]:
  "getattr (setattr self name v) name' = (if name = name' then py_return v else getattr self name')"
  by (simp add: getattr_def setattr_def update_conv')

lemma getattr_Nil [simp]: "getattr [] name = py_raise (AttributeError name)"
  by (simp add: getattr_def)

lemma getattr_Cons [simp]:
  "getattr ((name, v) # self) name' = (if name = name' then py_return v else getattr self name')"
  by (simp add: getattr_def)

lemma py_bind_call:
  "py_bind (call fw c) f (w, lg) =
     (case exec fw c w of
        (Inl e, w') \<Rightarrow> (Inl (Framework e), (w', lg @ [c]))
      | (Inr obj, w') \<Rightarrow> f (PObj obj) (w', lg @ [c]))"
  by (simp add: py_bind_def call_def split: prod.splits sum.splits)

lemma call_apply:
  "call fw c (w, lg) =
     (case exec fw c w of
        (Inl e, w') \<Rightarrow> (Inl (Framework e), (w', lg @ [c]))
      | (Inr obj, w') \<Rightarrow> (Inr (PObj obj), (w', lg @ [c])))"
  by (simp add: call_def)

lemma py_bind_object_attribute:
  "py_bind (object_attribute fw (PObj obj) name) f =
     (case attribute fw obj name of Inl e \<Rightarrow> py_raise (Framework e) | Inr v \<Rightarrow> f (PObj v))"
  by (simp split: sum.splits)

lemma py_return_apply: "py_return a s = (Inr a, s)"
  by (simp add: py_return_def)

lemma py_raise_apply: "py_raise e s = (Inl e, s)"
  by (simp add: py_raise_def)

lemma GPT2Model_C_init_eq:
  "GPT2Model_C_init fw args =
     py_bind (GPT2Model_init fw (GPT2Model_args.truncate args))
       (\<lambda>self. py_raise (AttributeError ''hidden_size''))"
  unfolding GPT2Model_C_init_def GPT2Model_init_def
  by (simp add: py_bind_assoc Let_def GPT2Model_args.truncate_def)

lemma setattr_Nil: "setattr [] name v = [(name, v)]"
  by (simp add: setattr_def)

lemma setattr_Cons: "setattr ((name', v') # self) name v =
   (if name' = name then (name, v) # self else (name', v') # setattr self name v)"
  by (simp add: setattr_def)

lemma GPT2Model_init_success:
  "GPT2Model_init fw args (w0, lg0) = (Inr self, (w', lg')) \<longleftrightarrow>
     (\<exists>we w1 pe w2 wt x w3 dr w4 tr.
        exec fw (Mpu_VocabParallelEmbedding (vocab_size args) (hidden_size args) (PInit 0.02)) w0 = (Inr we, w1) \<and>
        exec fw (Torch_nn_Embedding (max_sequence_length args) (hidden_size args)) w1 = (Inr pe, w2) \<and>
        attribute fw pe ''weight'' = Inr wt \<and>
        exec fw (Torch_nn_init_normal (PObj wt) (PFloat 0) (PFloat 0.02)) w2 = (Inr x, w3) \<and>
        exec fw (Torch_nn_Dropout (embedding_dropout_prob args)) w3 = (Inr dr, w4) \<and>
        exec fw (Mpu_GPT2ParallelTransformer (num_layers args) (hidden_size args)
                 (num_attention_heads args) (attention_dropout_prob args)
                 (output_dropout_prob args) (checkpoint_activations args)
                 (checkpoint_num_layers args)) w4 = (Inr tr, w') \<and>
        self = [(''parallel_output'', PBool (parallel_output args)), (''word_embeddings'', PObj we),
                (''position_embeddings'', PObj pe), (''embedding_dropout'', PObj dr),
                (''transformer'', PObj tr)] \<and>
        lg' = lg0 @
          [Mpu_VocabParallelEmbedding (vocab_size args) (hidden_size args) (PInit 0.02),
           Torch_nn_Embedding (max_sequence_length args) (hidden_size args),
           Torch_nn_init_normal (PObj wt) (PFloat 0) (PFloat 0.02),
           Torch_nn_Dropout (embedding_dropout_prob args),
           Mpu_GPT2ParallelTransformer (num_layers args) (hidden_size args)
                 (num_attention_heads args) (attention_dropout_prob args)
                 (output_dropout_prob args) (checkpoint_activations args)
                 (checkpoint_num_layers args)])"
  unfolding GPT2Model_init_def
  apply (simp add: Let_def init_method_normal_def init'_def py_bind_call py_bind_object_attribute
     py_return_apply py_raise_apply setattr_Nil setattr_Cons
     split: prod.splits sum.splits)
  apply (auto simp: py_return_apply py_raise_apply)
  done


lemmas run_simps = Let_def init_method_normal_def init'_def py_bind_call call_apply py_bind_object_attribute
     py_return_apply py_raise_apply setattr_Nil setattr_Cons

lemma GPT2Model_forward_success:
  "GPT2Model_forward fw [(''parallel_output'', PBool po), (''word_embeddings'', PObj we),
                (''position_embeddings'', PObj pe), (''embedding_dropout'', PObj dr),
                (''transformer'', PObj tr)] input_ids position_ids attention_mask (w, lg) = (Inr logits, (w', lg')) \<longleftrightarrow>
       (\<exists>a w1 b w2 c w3 d w4 t w5 p w6 wt l w7.
          exec fw (Call_object (PObj we) [input_ids]) w = (Inr a, w1) \<and>
          exec fw (Call_object (PObj pe) [position_ids]) w1 = (Inr b, w2) \<and>
          exec fw (Tensor_add (PObj a) (PObj b)) w2 = (Inr c, w3) \<and>
          exec fw (Call_object (PObj dr) [PObj c]) w3 = (Inr d, w4) \<and>
          exec fw (Call_object (PObj tr) [PObj d, attention_mask]) w4 = (Inr t, w5) \<and>
          exec fw (Mpu_copy_to_model_parallel_region (PObj t)) w5 = (Inr p, w6) \<and>
          attribute fw we ''weight'' = Inr wt \<and>
          exec fw (F_linear (PObj p) (PObj wt) None) w6 = (Inr l, w7) \<and>
          (if po then logits = PObj l \<and> w' = w7 \<and>
              lg' = lg @ [Call_object (PObj we) [input_ids], Call_object (PObj pe) [position_ids],
                 Tensor_add (PObj a) (PObj b), Call_object (PObj dr) [PObj c],
                 Call_object (PObj tr) [PObj d, attention_mask],
                 Mpu_copy_to_model_parallel_region (PObj t), F_linear (PObj p) (PObj wt) None]
           else \<exists>g. exec fw (Mpu_gather_from_model_parallel_region (PObj l)) w7 = (Inr g, w') \<and>
              logits = PObj g \<and>
              lg' = lg @ [Call_object (PObj we) [input_ids], Call_object (PObj pe) [position_ids],
                 Tensor_add (PObj a) (PObj b), Call_object (PObj dr) [PObj c],
                 Call_object (PObj tr) [PObj d, attention_mask],
                 Mpu_copy_to_model_parallel_region (PObj t), F_linear (PObj p) (PObj wt) None,
                 Mpu_gather_from_model_parallel_region (PObj l)]))"
  unfolding GPT2Model_forward_def
  apply (simp add: run_simps split: prod.splits sum.splits)
  apply (auto simp: run_simps)
  done


lemma py_call_op: "py_call fw f args = call fw (py_call_op f args)"
  by (induction f args rule: py_call_op.induct) (simp_all add: init'_def)

lemma py_call_op_not_gather [simp]: "py_call_op f args \<noteq> Mpu_gather_from_model_parallel_region x"
  by (induction f args rule: py_call_op.induct) simp_all

lemma py_call_op_not_linear [simp]: "py_call_op f args \<noteq> F_linear x wt bias"
  by (induction f args rule: py_call_op.induct) simp_all

lemma py_call_op_not_gather' [simp]: "Mpu_gather_from_model_parallel_region x \<noteq> py_call_op f args"
  using py_call_op_not_gather[of f args x] by (rule not_sym)

lemma py_call_op_not_linear' [simp]: "F_linear x wt bias \<noteq> py_call_op f args"
  using py_call_op_not_linear[of f args x wt bias] by (rule not_sym)

lemma py_bind_object_attribute_apply:
  "py_bind (object_attribute fw v name) f s =
     (case v of
        PObj obj \<Rightarrow> (case attribute fw obj name of Inl e \<Rightarrow> (Inl (Framework e), s) | Inr a \<Rightarrow> f (PObj a) s)
      | _ \<Rightarrow> (Inl (AttributeError name), s))"
  by (cases v) (simp_all add: py_raise_apply split: sum.splits)

lemma py_bind_getattr:
  "py_bind (getattr self name) f s =
     (case map_of self name of None \<Rightarrow> (Inl (AttributeError name), s) | Some v \<Rightarrow> f v s)"
  by (simp add: getattr_def py_raise_apply split: option.splits)

lemma GPT2Model_forward_gather:
  "GPT2Model_forward fw (setattr self ''parallel_output'' (PBool False)) input_ids position_ids attention_mask =
     py_bind (GPT2Model_forward fw (setattr self ''parallel_output'' (PBool True)) input_ids position_ids attention_mask)
       (\<lambda>logits_parallel. call fw (Mpu_gather_from_model_parallel_region logits_parallel))"
  unfolding GPT2Model_forward_def by (simp add: py_bind_assoc)

lemma GPT2Model_C_forward_gather:
  "GPT2Model_C_forward fw (setattr self ''parallel_output'' (PBool False)) input_ids position_ids attention_mask =
     py_bind (GPT2Model_C_forward fw (setattr self ''parallel_output'' (PBool True)) input_ids position_ids attention_mask)
       (\<lambda>logits_parallel. call fw (Mpu_gather_from_model_parallel_region logits_parallel))"
  unfolding GPT2Model_C_forward_def by (simp add: py_bind_assoc Let_def)

lemmas any_run_simps = Let_def py_call_op py_bind_call call_apply py_bind_object_attribute_apply
     py_bind_getattr py_return_apply py_raise_apply

lemma GPT2Model_forward_no_gather:
  "GPT2Model_forward fw (setattr self ''parallel_output'' (PBool True)) input_ids position_ids attention_mask (w, lg) = (r, (w', lg'))
   \<Longrightarrow> \<exists>new. lg' = lg @ new \<and> (\<forall>x. Mpu_gather_from_model_parallel_region x \<notin> set new)"
  unfolding GPT2Model_forward_def
  apply (simp add: any_run_simps setattr_def update_conv' split: prod.splits sum.splits option.splits pyval.splits)
  apply (auto)
  done

lemma GPT2Model_C_forward_no_gather:
  "GPT2Model_C_forward fw (setattr self ''parallel_output'' (PBool True)) input_ids position_ids attention_mask (w, lg) = (r, (w', lg'))
   \<Longrightarrow> \<exists>new. lg' = lg @ new \<and> (\<forall>x. Mpu_gather_from_model_parallel_region x \<notin> set new)"
  unfolding GPT2Model_C_forward_def
  apply (simp add: any_run_simps setattr_def update_conv' split: prod.splits sum.splits option.splits pyval.splits)
  apply (auto)
  done


lemma GPT2Model_forward_linear_calls:
  "GPT2Model_forward fw [(''parallel_output'', PBool po), (''word_embeddings'', PObj we),
                (''position_embeddings'', PObj pe), (''embedding_dropout'', PObj dr),
                (''transformer'', PObj tr)] input_ids position_ids attention_mask (w, lg) = (r, (w', lg'))
   \<Longrightarrow> \<exists>new. lg' = lg @ new \<and>
         (\<forall>x wt bias. F_linear x wt bias \<in> set new \<longrightarrow>
            (\<exists>wt'. attribute fw we ''weight'' = Inr wt' \<and> wt = PObj wt') \<and> bias = None)"
  unfolding GPT2Model_forward_def
  apply (simp add: run_simps split: prod.splits sum.splits)
  apply (auto simp: run_simps split: if_splits prod.splits sum.splits)
  done

lemma GPT2Model_init_errors:
  "GPT2Model_init fw args (w0, lg0) = (Inl e, s') \<Longrightarrow> \<exists>e'. e = Framework e'"
  unfolding GPT2Model_init_def
  apply (simp add: run_simps split: prod.splits sum.splits)
  apply (auto simp: run_simps split: if_splits prod.splits sum.splits)
  done

lemma GPT2Model_forward_errors:
  "GPT2Model_forward fw [(''parallel_output'', PBool po), (''word_embeddings'', PObj we),
                (''position_embeddings'', PObj pe), (''embedding_dropout'', PObj dr),
                (''transformer'', PObj tr)] input_ids position_ids attention_mask (w, lg) = (Inl e, s')
   \<Longrightarrow> \<exists>e'. e = Framework e'"
  unfolding GPT2Model_forward_def
  apply (simp add: run_simps split: prod.splits sum.splits)
  apply (auto simp: run_simps split: if_splits prod.splits sum.splits)
  done

lemma example_init:
  "GPT2Model_init example_framework example_args (3, []) =
     (Inr example_self, 8,
      [Mpu_VocabParallelEmbedding (PInt 16) (PInt 8) (PInit 0.02),
       Torch_nn_Embedding (PInt 32) (PInt 8),
       Torch_nn_init_normal (PObj (Attr (Ref 4) ''weight'')) (PFloat 0) (PFloat 0.02),
       Torch_nn_Dropout (PFloat 0.1),
       Mpu_GPT2ParallelTransformer (PInt 2) (PInt 8) (PInt 2) (PFloat 0.1) (PFloat 0.1)
         (PBool False) (PInt 1)])"
  by (simp add: GPT2Model_init_def run_simps example_framework_def example_args_def example_self_def)

lemma example_forward:
  "GPT2Model_forward example_framework example_self (PObj (Ref 0)) (PObj (Ref 1)) (PObj (Ref 2)) (8, []) =
     (Inr (PObj (Ref 15)), 16,
      [Call_object (PObj (Ref 3)) [PObj (Ref 0)],
       Call_object (PObj (Ref 4)) [PObj (Ref 1)],
       Tensor_add (PObj (Ref 8)) (PObj (Ref 9)),
       Call_object (PObj (Ref 6)) [PObj (Ref 10)],
       Call_object (PObj (Ref 7)) [PObj (Ref 11), PObj (Ref 2)],
       Mpu_copy_to_model_parallel_region (PObj (Ref 12)),
       F_linear (PObj (Ref 13)) (PObj (Attr (Ref 3) ''weight'')) None,
       Mpu_gather_from_model_parallel_region (PObj (Ref 14))])"
  by (simp add: GPT2Model_forward_def run_simps example_framework_def example_self_def)

lemma example_C_init:
  "GPT2Model_C_init example_framework example_C_args (3, []) =
     (Inl (AttributeError ''hidden_size''), 8,
      [Mpu_VocabParallelEmbedding (PInt 16) (PInt 8) (PInit 0.02),
       Torch_nn_Embedding (PInt 32) (PInt 8),
       Torch_nn_init_normal (PObj (Attr (Ref 4) ''weight'')) (PFloat 0) (PFloat 0.02),
       Torch_nn_Dropout (PFloat 0.1),
       Mpu_GPT2ParallelTransformer (PInt 2) (PInt 8) (PInt 2) (PFloat 0.1) (PFloat 0.1)
         (PBool False) (PInt 1)])"
  by (simp add: GPT2Model_C_init_def run_simps example_framework_def example_C_args_def)

lemma example_C_init_dropout:
  "GPT2Model_C_init example_framework (example_C_args\<lparr>embedding_dropout_prob := PFloat 2\<rparr>) (3, []) =
     (Inl (Framework ''ValueError''), 6,
      [Mpu_VocabParallelEmbedding (PInt 16) (PInt 8) (PInit 0.02),
       Torch_nn_Embedding (PInt 32) (PInt 8),
       Torch_nn_init_normal (PObj (Attr (Ref 4) ''weight'')) (PFloat 0) (PFloat 0.02),
       Torch_nn_Dropout (PFloat 2)])"
  by (simp add: GPT2Model_C_init_def run_simps example_framework_def example_C_args_def)

lemma GPT2Model_forward_unchanged:
  "GPT2Model_forward fw (setattr self ''parallel_output'' (PBool True)) input_ids position_ids attention_mask (w, lg) = (Inr logits, (w', lg'))
   \<Longrightarrow> \<exists>pre x wt l w6. lg' = lg @ pre @ [F_linear x wt None] \<and>
         exec fw (F_linear x wt None) w6 = (Inr l, w') \<and> logits = PObj l"
  unfolding GPT2Model_forward_def
  apply (simp add: any_run_simps setattr_def update_conv' split: prod.splits sum.splits option.splits pyval.splits)
  apply (auto)
  done

lemma GPT2Model_C_forward_unchanged:
  "GPT2Model_C_forward fw (setattr self ''parallel_output'' (PBool True)) input_ids position_ids attention_mask (w, lg) = (Inr logits, (w', lg'))
   \<Longrightarrow> \<exists>pre classifier pooler l w6. map_of self ''classifier'' = Some classifier \<and>
         lg' = lg @ pre @ [py_call_op classifier [pooler]] \<and>
         exec fw (py_call_op classifier [pooler]) w6 = (Inr l, w') \<and> logits = PObj l"
  unfolding GPT2Model_C_forward_def
  apply (simp add: any_run_simps setattr_def update_conv' split: prod.splits sum.splits option.splits pyval.splits)
  apply (auto)
  apply blast
  done

section \<open>The constructors\<close>

text \<open>
  Claim C9, as amended. For every framework, argument tuple and state,
  \<open>GPT2Model_C.__init__\<close> runs the statements of \<open>GPT2Model.__init__\<close> (on its arguments
  without \<open>num_labels\<close>, which is what \<open>GPT2Model_args.truncate\<close> leaves) and then raises
  \<open>AttributeError\<close> for \<open>hidden_size\<close>, which is read from \<open>self\<close> and never assigned: when
  the framework calls made first all return, the constructor raises that
  \<open>AttributeError\<close>; when one of them raises, its exception propagates. Either way the
  constructor raises, so no instance of \<open>GPT2Model_C\<close> is ever created and its \<open>forward\<close> is
  never reached.
\<close>

theorem GPT2Model_C_init_never_returns:
  "GPT2Model_C_init fw args =
     py_bind (GPT2Model_init fw (GPT2Model_args.truncate args))
       (\<lambda>self. py_raise (AttributeError ''hidden_size'')) \<and>
   (\<forall>s. \<exists>e s'. GPT2Model_C_init fw args s = (Inl e, s'))"
proof
  show eq: "GPT2Model_C_init fw args =
     py_bind (GPT2Model_init fw (GPT2Model_args.truncate args))
       (\<lambda>self. py_raise (AttributeError ''hidden_size''))"
    by (rule GPT2Model_C_init_eq)
  show "\<forall>s. \<exists>e s'. GPT2Model_C_init fw args s = (Inl e, s')"
    unfolding eq by (auto simp: py_bind_def py_raise_def split: prod.splits sum.splits)
qed

text \<open>
  Claim C9 as stated fails: with a dropout probability of \<open>2.0\<close> the constructor of
  \<open>torch.nn.Dropout\<close> raises first, and the exception that leaves
  \<open>GPT2Model_C.__init__\<close> is that \<open>ValueError\<close>, not an \<open>AttributeError\<close>.
\<close>

theorem GPT2Model_C_init_dropout_error:
  "fst (GPT2Model_C_init example_framework (example_C_args\<lparr>embedding_dropout_prob := PFloat 2\<rparr>) (3, [])) =
     Inl (Framework ''ValueError'')"
  by (simp add: example_C_init_dropout)

text \<open>
  Claim C7 at \<open>GPT2Model_C(num_layers=2, vocab_size=16, hidden_size=8, num_labels=3,
  num_attention_heads=2, embedding_dropout_prob=0.1, attention_dropout_prob=0.1,
  output_dropout_prob=0.1, max_sequence_length=32, checkpoint_activations=False)\<close>:
  all five framework calls return, and the constructor raises an \<open>AttributeError\<close> that
  no framework check of shapes or types raised.
\<close>

theorem GPT2Model_C_init_own_error:
  "GPT2Model_C_init example_framework example_C_args (3, []) =
     (Inl (AttributeError ''hidden_size''), 8,
      [Mpu_VocabParallelEmbedding (PInt 16) (PInt 8) (PInit 0.02),
       Torch_nn_Embedding (PInt 32) (PInt 8),
       Torch_nn_init_normal (PObj (Attr (Ref 4) ''weight'')) (PFloat 0) (PFloat 0.02),
       Torch_nn_Dropout (PFloat 0.1),
       Mpu_GPT2ParallelTransformer (PInt 2) (PInt 8) (PInt 2) (PFloat 0.1) (PFloat 0.1)
         (PBool False) (PInt 1)])"
  by (rule example_C_init)

text \<open>
  Claim C5 at the same arguments: constructing the model and calling \<open>forward\<close> on the
  result returns no classification logits, it raises the \<open>AttributeError\<close> of the
  constructor.
\<close>

theorem GPT2Model_C_returns_no_logits:
  "fst (py_bind (GPT2Model_C_init example_framework example_C_args)
          (\<lambda>self. GPT2Model_C_forward example_framework self (PObj (Ref 0)) (PObj (Ref 1)) (PObj (Ref 2)))
          (3, [])) = Inl (AttributeError ''hidden_size'')"
  by (simp add: py_bind_def example_C_init)

section \<open>The forward pass\<close>

text \<open>
  Claim C1. Let \<open>GPT2Model.__init__\<close> return the instance \<open>self\<close>. Then its word
  embedding is the object \<open>we\<close> that \<open>mpu.VocabParallelEmbedding\<close> returned, its position
  embedding the object \<open>pe\<close> that \<open>torch.nn.Embedding\<close> returned, its dropout and
  transformer the objects \<open>dr\<close> and \<open>tr\<close> that \<open>torch.nn.Dropout\<close> and
  \<open>mpu.GPT2ParallelTransformer\<close> returned, and for every input triple \<open>forward\<close> returns
  \<open>logits\<close> exactly when the following framework calls return in this order, each on the
  results of the earlier ones: \<open>we(input_ids)\<close>, \<open>pe(position_ids)\<close>, their sum, \<open>dr\<close> of
  the sum, \<open>tr\<close> of that and \<open>attention_mask\<close>, \<open>copy_to_model_parallel_region\<close>,
  \<open>F.linear\<close> with the weight of \<open>we\<close>, and, only when \<open>parallel_output\<close> is false,
  \<open>gather_from_model_parallel_region\<close>. The calls logged are these and no others.
\<close>

theorem GPT2Model_forward_composition:
  assumes init: "GPT2Model_init fw args (w0, lg0) = (Inr self, s1)"
  shows "\<exists>we w1 pe w2 pw x w3 dr w4 tr.
     exec fw (Mpu_VocabParallelEmbedding (vocab_size args) (hidden_size args) (PInit 0.02)) w0 = (Inr we, w1) \<and>
     exec fw (Torch_nn_Embedding (max_sequence_length args) (hidden_size args)) w1 = (Inr pe, w2) \<and>
     attribute fw pe ''weight'' = Inr pw \<and>
     exec fw (Torch_nn_init_normal (PObj pw) (PFloat 0) (PFloat 0.02)) w2 = (Inr x, w3) \<and>
     exec fw (Torch_nn_Dropout (embedding_dropout_prob args)) w3 = (Inr dr, w4) \<and>
     exec fw (Mpu_GPT2ParallelTransformer (num_layers args) (hidden_size args)
                 (num_attention_heads args) (attention_dropout_prob args)
                 (output_dropout_prob args) (checkpoint_activations args)
                 (checkpoint_num_layers args)) w4 = (Inr tr, fst s1) \<and>
     (\<forall>input_ids position_ids attention_mask w lg logits w' lg'.
        GPT2Model_forward fw self input_ids position_ids attention_mask (w, lg) = (Inr logits, (w', lg')) \<longleftrightarrow>
        (\<exists>a w1 b w2 c w3 d w4 t w5 p w6 wt l w7.
          exec fw (Call_object (PObj we) [input_ids]) w = (Inr a, w1) \<and>
          exec fw (Call_object (PObj pe) [position_ids]) w1 = (Inr b, w2) \<and>
          exec fw (Tensor_add (PObj a) (PObj b)) w2 = (Inr c, w3) \<and>
          exec fw (Call_object (PObj dr) [PObj c]) w3 = (Inr d, w4) \<and>
          exec fw (Call_object (PObj tr) [PObj d, attention_mask]) w4 = (Inr t, w5) \<and>
          exec fw (Mpu_copy_to_model_parallel_region (PObj t)) w5 = (Inr p, w6) \<and>
          attribute fw we ''weight'' = Inr wt \<and>
          exec fw (F_linear (PObj p) (PObj wt) None) w6 = (Inr l, w7) \<and>
          (if parallel_output args then logits = PObj l \<and> w' = w7 \<and>
              lg' = lg @ [Call_object (PObj we) [input_ids], Call_object (PObj pe) [position_ids],
                 Tensor_add (PObj a) (PObj b), Call_object (PObj dr) [PObj c],
                 Call_object (PObj tr) [PObj d, attention_mask],
                 Mpu_copy_to_model_parallel_region (PObj t), F_linear (PObj p) (PObj wt) None]
           else \<exists>g. exec fw (Mpu_gather_from_model_parallel_region (PObj l)) w7 = (Inr g, w') \<and>
              logits = PObj g \<and>
              lg' = lg @ [Call_object (PObj we) [input_ids], Call_object (PObj pe) [position_ids],
                 Tensor_add (PObj a) (PObj b), Call_object (PObj dr) [PObj c],
                 Call_object (PObj tr) [PObj d, attention_mask],
                 Mpu_copy_to_model_parallel_region (PObj t), F_linear (PObj p) (PObj wt) None,
                 Mpu_gather_from_model_parallel_region (PObj l)])))"
proof -
  obtain w9 lg9 where s1: "s1 = (w9, lg9)" by (cases s1)
  from init obtain we w1 pe w2 pw x w3 dr w4 tr where
    built: "exec fw (Mpu_VocabParallelEmbedding (vocab_size args) (hidden_size args) (PInit 0.02)) w0 = (Inr we, w1)"
      "exec fw (Torch_nn_Embedding (max_sequence_length args) (hidden_size args)) w1 = (Inr pe, w2)"
      "attribute fw pe ''weight'' = Inr pw"
      "exec fw (Torch_nn_init_normal (PObj pw) (PFloat 0) (PFloat 0.02)) w2 = (Inr x, w3)"
      "exec fw (Torch_nn_Dropout (embedding_dropout_prob args)) w3 = (Inr dr, w4)"
      "exec fw (Mpu_GPT2ParallelTransformer (num_layers args) (hidden_size args)
                 (num_attention_heads args) (attention_dropout_prob args)
                 (output_dropout_prob args) (checkpoint_activations args)
                 (checkpoint_num_layers args)) w4 = (Inr tr, fst s1)"
    and self: "self = [(''parallel_output'', PBool (parallel_output args)), (''word_embeddings'', PObj we),
                (''position_embeddings'', PObj pe), (''embedding_dropout'', PObj dr),
                (''transformer'', PObj tr)]"
    unfolding s1 GPT2Model_init_success by auto
  show ?thesis
    apply (rule exI[of _ we], rule exI[of _ w1], rule exI[of _ pe], rule exI[of _ w2],
        rule exI[of _ pw], rule exI[of _ x], rule exI[of _ w3], rule exI[of _ dr],
        rule exI[of _ w4], rule exI[of _ tr])
    apply (intro conjI built allI)
    unfolding self
    apply (rule GPT2Model_forward_success)
    done
qed

text \<open>The hypothesis of C1 holds for the example arguments, and the run is the one stated.\<close>

theorem GPT2Model_forward_composition_witness:
  "GPT2Model_init example_framework example_args (3, []) =
     (Inr example_self, 8,
      [Mpu_VocabParallelEmbedding (PInt 16) (PInt 8) (PInit 0.02),
       Torch_nn_Embedding (PInt 32) (PInt 8),
       Torch_nn_init_normal (PObj (Attr (Ref 4) ''weight'')) (PFloat 0) (PFloat 0.02),
       Torch_nn_Dropout (PFloat 0.1),
       Mpu_GPT2ParallelTransformer (PInt 2) (PInt 8) (PInt 2) (PFloat 0.1) (PFloat 0.1)
         (PBool False) (PInt 1)]) \<and>
   GPT2Model_forward example_framework example_self (PObj (Ref 0)) (PObj (Ref 1)) (PObj (Ref 2)) (8, []) =
     (Inr (PObj (Ref 15)), 16,
      [Call_object (PObj (Ref 3)) [PObj (Ref 0)],
       Call_object (PObj (Ref 4)) [PObj (Ref 1)],
       Tensor_add (PObj (Ref 8)) (PObj (Ref 9)),
       Call_object (PObj (Ref 6)) [PObj (Ref 10)],
       Call_object (PObj (Ref 7)) [PObj (Ref 11), PObj (Ref 2)],
       Mpu_copy_to_model_parallel_region (PObj (Ref 12)),
       F_linear (PObj (Ref 13)) (PObj (Attr (Ref 3) ''weight'')) None,
       Mpu_gather_from_model_parallel_region (PObj (Ref 14))])"
  using GPT2Model_forward_composition[OF example_init, unfolded fst_conv]
  apply (elim exE conjE)
  apply (simp add: example_framework_def example_args_def example_init[unfolded example_framework_def example_args_def])
  done

text \<open>
  Claim C3. Let \<open>GPT2Model.__init__\<close> return the instance \<open>self\<close> and let \<open>we\<close> be the
  object that \<open>mpu.VocabParallelEmbedding\<close> returned. The constructor makes five framework
  calls, none of them builds a projection layer, and \<open>self\<close> has the five attributes
  listed, \<open>we\<close> under \<open>word_embeddings\<close>. In every run of \<open>forward\<close>, every \<open>F.linear\<close> call
  has the weight of \<open>we\<close> as its weight argument and passes no bias; a run that returns
  makes exactly one such call.
\<close>

theorem GPT2Model_tied_projection:
  assumes init: "GPT2Model_init fw args (w0, lg0) = (Inr self, (w1, lg1))"
  shows "\<exists>we w2 pw.
     exec fw (Mpu_VocabParallelEmbedding (vocab_size args) (hidden_size args) (PInit 0.02)) w0 = (Inr we, w2) \<and>
     map_of self ''word_embeddings'' = Some (PObj we) \<and>
     map fst self = [''parallel_output'', ''word_embeddings'', ''position_embeddings'',
                     ''embedding_dropout'', ''transformer''] \<and>
     lg1 = lg0 @
          [Mpu_VocabParallelEmbedding (vocab_size args) (hidden_size args) (PInit 0.02),
           Torch_nn_Embedding (max_sequence_length args) (hidden_size args),
           Torch_nn_init_normal (PObj pw) (PFloat 0) (PFloat 0.02),
           Torch_nn_Dropout (embedding_dropout_prob args),
           Mpu_GPT2ParallelTransformer (num_layers args) (hidden_size args)
                 (num_attention_heads args) (attention_dropout_prob args)
                 (output_dropout_prob args) (checkpoint_activations args)
                 (checkpoint_num_layers args)] \<and>
     (\<forall>input_ids position_ids attention_mask w lg r w' lg'.
        GPT2Model_forward fw self input_ids position_ids attention_mask (w, lg) = (r, (w', lg')) \<longrightarrow>
        (\<exists>new. lg' = lg @ new \<and>
           (\<forall>x wt bias. F_linear x wt bias \<in> set new \<longrightarrow>
              (\<exists>wt'. attribute fw we ''weight'' = Inr wt' \<and> wt = PObj wt') \<and> bias = None) \<and>
           (\<forall>logits. r = Inr logits \<longrightarrow>
              (\<exists>pre post x wt'. new = pre @ [F_linear x (PObj wt') None] @ post \<and>
                 attribute fw we ''weight'' = Inr wt' \<and>
                 (\<forall>y wt bias. F_linear y wt bias \<notin> set pre \<and> F_linear y wt bias \<notin> set post)))))"
proof -
  from init obtain we w2 pe pw dr tr where
    built: "exec fw (Mpu_VocabParallelEmbedding (vocab_size args) (hidden_size args) (PInit 0.02)) w0 = (Inr we, w2)"
    and self: "self = [(''parallel_output'', PBool (parallel_output args)), (''word_embeddings'', PObj we),
                (''position_embeddings'', PObj pe), (''embedding_dropout'', PObj dr),
                (''transformer'', PObj tr)]"
    and lg1: "lg1 = lg0 @
          [Mpu_VocabParallelEmbedding (vocab_size args) (hidden_size args) (PInit 0.02),
           Torch_nn_Embedding (max_sequence_length args) (hidden_size args),
           Torch_nn_init_normal (PObj pw) (PFloat 0) (PFloat 0.02),
           Torch_nn_Dropout (embedding_dropout_prob args),
           Mpu_GPT2ParallelTransformer (num_layers args) (hidden_size args)
                 (num_attention_heads args) (attention_dropout_prob args)
                 (output_dropout_prob args) (checkpoint_activations args)
                 (checkpoint_num_layers args)]"
    unfolding GPT2Model_init_success by auto
  have run: "\<exists>new. lg' = lg @ new \<and>
           (\<forall>x wt bias. F_linear x wt bias \<in> set new \<longrightarrow>
              (\<exists>wt'. attribute fw we ''weight'' = Inr wt' \<and> wt = PObj wt') \<and> bias = None) \<and>
           (\<forall>logits. r = Inr logits \<longrightarrow>
              (\<exists>pre post x wt'. new = pre @ [F_linear x (PObj wt') None] @ post \<and>
                 attribute fw we ''weight'' = Inr wt' \<and>
                 (\<forall>y wt bias. F_linear y wt bias \<notin> set pre \<and> F_linear y wt bias \<notin> set post)))"
    if fwd: "GPT2Model_forward fw self input_ids position_ids attention_mask (w, lg) = (r, (w', lg'))"
    for input_ids position_ids attention_mask w lg r w' lg'
  proof -
    from GPT2Model_forward_linear_calls[OF fwd[unfolded self]] obtain new where
      new: "lg' = lg @ new"
        "\<forall>x wt bias. F_linear x wt bias \<in> set new \<longrightarrow>
              (\<exists>wt'. attribute fw we ''weight'' = Inr wt' \<and> wt = PObj wt') \<and> bias = None"
      by blast
    have "\<exists>pre post x wt'. new = pre @ [F_linear x (PObj wt') None] @ post \<and>
                 attribute fw we ''weight'' = Inr wt' \<and>
                 (\<forall>y wt bias. F_linear y wt bias \<notin> set pre \<and> F_linear y wt bias \<notin> set post)"
      if "r = Inr logits" for logits
    proof -
      from fwd[unfolded self that GPT2Model_forward_success] obtain a b c d t p wt' l where
        wt: "attribute fw we ''weight'' = Inr wt'"
        and lg': "lg' = lg @ [Call_object (PObj we) [input_ids], Call_object (PObj pe) [position_ids],
                 Tensor_add (PObj a) (PObj b), Call_object (PObj dr) [PObj c],
                 Call_object (PObj tr) [PObj d, attention_mask],
                 Mpu_copy_to_model_parallel_region (PObj t)] @ [F_linear (PObj p) (PObj wt') None] @
                 (if parallel_output args then [] else [Mpu_gather_from_model_parallel_region (PObj l)])"
        by (auto split: if_splits)
      from lg' new(1) have "new = [Call_object (PObj we) [input_ids], Call_object (PObj pe) [position_ids],
                 Tensor_add (PObj a) (PObj b), Call_object (PObj dr) [PObj c],
                 Call_object (PObj tr) [PObj d, attention_mask],
                 Mpu_copy_to_model_parallel_region (PObj t)] @ [F_linear (PObj p) (PObj wt') None] @
                 (if parallel_output args then [] else [Mpu_gather_from_model_parallel_region (PObj l)])"
        by simp
      moreover have "\<forall>y wt bias.
          F_linear y wt bias \<notin> set [Call_object (PObj we) [input_ids], Call_object (PObj pe) [position_ids],
                 Tensor_add (PObj a) (PObj b), Call_object (PObj dr) [PObj c],
                 Call_object (PObj tr) [PObj d, attention_mask],
                 Mpu_copy_to_model_parallel_region (PObj t)] \<and>
          F_linear y wt bias \<notin> set (if parallel_output args then [] else [Mpu_gather_from_model_parallel_region (PObj l)])"
        by simp
      ultimately show ?thesis using wt by blast
    qed
    with new show ?thesis by blast
  qed
  show ?thesis
    apply (rule exI[of _ we], rule exI[of _ w2], rule exI[of _ pw])
    apply (intro conjI built lg1 allI impI run)
      apply (simp_all add: self)
    done
qed

text \<open>The hypothesis of C3 holds for the example arguments.\<close>

theorem GPT2Model_tied_projection_witness:
  "GPT2Model_init example_framework example_args (3, []) =
     (Inr example_self, 8,
      [Mpu_VocabParallelEmbedding (PInt 16) (PInt 8) (PInit 0.02),
       Torch_nn_Embedding (PInt 32) (PInt 8),
       Torch_nn_init_normal (PObj (Attr (Ref 4) ''weight'')) (PFloat 0) (PFloat 0.02),
       Torch_nn_Dropout (PFloat 0.1),
       Mpu_GPT2ParallelTransformer (PInt 2) (PInt 8) (PInt 2) (PFloat 0.1) (PFloat 0.1)
         (PBool False) (PInt 1)]) \<and>
   map_of example_self ''word_embeddings'' = Some (PObj (Ref 3)) \<and>
   attribute example_framework (Ref 3) ''weight'' = Inr (Attr (Ref 3) ''weight'') \<and>
   snd (snd (GPT2Model_forward example_framework example_self (PObj (Ref 0)) (PObj (Ref 1)) (PObj (Ref 2)) (8, []))) =
      [Call_object (PObj (Ref 3)) [PObj (Ref 0)],
       Call_object (PObj (Ref 4)) [PObj (Ref 1)],
       Tensor_add (PObj (Ref 8)) (PObj (Ref 9)),
       Call_object (PObj (Ref 6)) [PObj (Ref 10)],
       Call_object (PObj (Ref 7)) [PObj (Ref 11), PObj (Ref 2)],
       Mpu_copy_to_model_parallel_region (PObj (Ref 12))] @
      [F_linear (PObj (Ref 13)) (PObj (Attr (Ref 3) ''weight'')) None] @
      [Mpu_gather_from_model_parallel_region (PObj (Ref 14))]"
  using GPT2Model_tied_projection[OF example_init] example_init example_forward
  by (simp add: example_self_def example_framework_def)

text \<open>
  Claim C4. For \<open>GPT2Model\<close> and for \<open>GPT2Model_C\<close>, and for every instance: \<open>forward\<close> with
  \<open>parallel_output\<close> false is \<open>forward\<close> with \<open>parallel_output\<close> true followed by
  \<open>gather_from_model_parallel_region\<close> on its result, and nothing else differs (same
  calls, same states, same exceptions). With \<open>parallel_output\<close> true no gather call is
  made, and the value returned is the object that the last call returned: the \<open>F.linear\<close>
  projection in \<open>GPT2Model\<close>, the call of the classifier in \<open>GPT2Model_C\<close>.
\<close>

theorem parallel_output_gather:
  "GPT2Model_forward fw (setattr self ''parallel_output'' (PBool False)) input_ids position_ids attention_mask =
     py_bind (GPT2Model_forward fw (setattr self ''parallel_output'' (PBool True)) input_ids position_ids attention_mask)
       (\<lambda>logits_parallel. call fw (Mpu_gather_from_model_parallel_region logits_parallel)) \<and>
   GPT2Model_C_forward fw (setattr self ''parallel_output'' (PBool False)) input_ids position_ids attention_mask =
     py_bind (GPT2Model_C_forward fw (setattr self ''parallel_output'' (PBool True)) input_ids position_ids attention_mask)
       (\<lambda>logits_parallel. call fw (Mpu_gather_from_model_parallel_region logits_parallel)) \<and>
   (\<forall>w lg r w' lg'.
      GPT2Model_forward fw (setattr self ''parallel_output'' (PBool True))
        input_ids position_ids attention_mask (w, lg) = (r, (w', lg')) \<longrightarrow>
      (\<exists>new. lg' = lg @ new \<and> (\<forall>x. Mpu_gather_from_model_parallel_region x \<notin> set new) \<and>
         (\<forall>logits. r = Inr logits \<longrightarrow>
            (\<exists>pre x wt l w6. new = pre @ [F_linear x wt None] \<and>
               exec fw (F_linear x wt None) w6 = (Inr l, w') \<and> logits = PObj l)))) \<and>
   (\<forall>w lg r w' lg'.
      GPT2Model_C_forward fw (setattr self ''parallel_output'' (PBool True))
        input_ids position_ids attention_mask (w, lg) = (r, (w', lg')) \<longrightarrow>
      (\<exists>new. lg' = lg @ new \<and> (\<forall>x. Mpu_gather_from_model_parallel_region x \<notin> set new) \<and>
         (\<forall>logits. r = Inr logits \<longrightarrow>
            (\<exists>pre classifier pooler l w6. map_of self ''classifier'' = Some classifier \<and>
               new = pre @ [py_call_op classifier [pooler]] \<and>
               exec fw (py_call_op classifier [pooler]) w6 = (Inr l, w') \<and> logits = PObj l))))"
proof (intro conjI allI impI)
  show "GPT2Model_forward fw (setattr self ''parallel_output'' (PBool False)) input_ids position_ids attention_mask =
     py_bind (GPT2Model_forward fw (setattr self ''parallel_output'' (PBool True)) input_ids position_ids attention_mask)
       (\<lambda>logits_parallel. call fw (Mpu_gather_from_model_parallel_region logits_parallel))"
    by (rule GPT2Model_forward_gather)
  show "GPT2Model_C_forward fw (setattr self ''parallel_output'' (PBool False)) input_ids position_ids attention_mask =
     py_bind (GPT2Model_C_forward fw (setattr self ''parallel_output'' (PBool True)) input_ids position_ids attention_mask)
       (\<lambda>logits_parallel. call fw (Mpu_gather_from_model_parallel_region logits_parallel))"
    by (rule GPT2Model_C_forward_gather)
next
  fix w lg r w' lg'
  assume run: "GPT2Model_forward fw (setattr self ''parallel_output'' (PBool True))
        input_ids position_ids attention_mask (w, lg) = (r, (w', lg'))"
  from GPT2Model_forward_no_gather[OF run] obtain new where
    new: "lg' = lg @ new" "\<forall>x. Mpu_gather_from_model_parallel_region x \<notin> set new" by blast
  have "\<exists>pre x wt l w6. new = pre @ [F_linear x wt None] \<and>
               exec fw (F_linear x wt None) w6 = (Inr l, w') \<and> logits = PObj l"
    if "r = Inr logits" for logits
    using GPT2Model_forward_unchanged[OF run[unfolded that]] new(1) by auto
  with new show "\<exists>new. lg' = lg @ new \<and> (\<forall>x. Mpu_gather_from_model_parallel_region x \<notin> set new) \<and>
         (\<forall>logits. r = Inr logits \<longrightarrow>
            (\<exists>pre x wt l w6. new = pre @ [F_linear x wt None] \<and>
               exec fw (F_linear x wt None) w6 = (Inr l, w') \<and> logits = PObj l))"
    by blast
next
  fix w lg r w' lg'
  assume run: "GPT2Model_C_forward fw (setattr self ''parallel_output'' (PBool True))
        input_ids position_ids attention_mask (w, lg) = (r, (w', lg'))"
  from GPT2Model_C_forward_no_gather[OF run] obtain new where
    new: "lg' = lg @ new" "\<forall>x. Mpu_gather_from_model_parallel_region x \<notin> set new" by blast
  have "\<exists>pre classifier pooler l w6. map_of self ''classifier'' = Some classifier \<and>
               new = pre @ [py_call_op classifier [pooler]] \<and>
               exec fw (py_call_op classifier [pooler]) w6 = (Inr l, w') \<and> logits = PObj l"
    if "r = Inr logits" for logits
    using GPT2Model_C_forward_unchanged[OF run[unfolded that]] new(1) by auto
  with new show "\<exists>new. lg' = lg @ new \<and> (\<forall>x. Mpu_gather_from_model_parallel_region x \<notin> set new) \<and>
         (\<forall>logits. r = Inr logits \<longrightarrow>
            (\<exists>pre classifier pooler l w6. map_of self ''classifier'' = Some classifier \<and>
               new = pre @ [py_call_op classifier [pooler]] \<and>
               exec fw (py_call_op classifier [pooler]) w6 = (Inr l, w') \<and> logits = PObj l))"
    by blast
qed

text \<open>
  C4 on the example: the runs with \<open>parallel_output\<close> true, and the runs with
  \<open>parallel_output\<close> false, which add the gather call and nothing else.
\<close>

theorem parallel_output_gather_witness:
  "GPT2Model_forward example_framework (setattr example_self ''parallel_output'' (PBool True))
     (PObj (Ref 0)) (PObj (Ref 1)) (PObj (Ref 2)) (8, []) =
     (Inr (PObj (Ref 14)), 15,
      [Call_object (PObj (Ref 3)) [PObj (Ref 0)],
       Call_object (PObj (Ref 4)) [PObj (Ref 1)],
       Tensor_add (PObj (Ref 8)) (PObj (Ref 9)),
       Call_object (PObj (Ref 6)) [PObj (Ref 10)],
       Call_object (PObj (Ref 7)) [PObj (Ref 11), PObj (Ref 2)],
       Mpu_copy_to_model_parallel_region (PObj (Ref 12)),
       F_linear (PObj (Ref 13)) (PObj (Attr (Ref 3) ''weight'')) None]) \<and>
   GPT2Model_forward example_framework (setattr example_self ''parallel_output'' (PBool False))
     (PObj (Ref 0)) (PObj (Ref 1)) (PObj (Ref 2)) (8, []) =
     (Inr (PObj (Ref 15)), 16,
      [Call_object (PObj (Ref 3)) [PObj (Ref 0)],
       Call_object (PObj (Ref 4)) [PObj (Ref 1)],
       Tensor_add (PObj (Ref 8)) (PObj (Ref 9)),
       Call_object (PObj (Ref 6)) [PObj (Ref 10)],
       Call_object (PObj (Ref 7)) [PObj (Ref 11), PObj (Ref 2)],
       Mpu_copy_to_model_parallel_region (PObj (Ref 12)),
       F_linear (PObj (Ref 13)) (PObj (Attr (Ref 3) ''weight'')) None,
       Mpu_gather_from_model_parallel_region (PObj (Ref 14))]) \<and>
   GPT2Model_C_forward example_framework (setattr example_C_self ''parallel_output'' (PBool True))
     (PObj (Ref 0)) (PObj (Ref 1)) (PObj (Ref 2)) (10, []) =
     (Inr (PObj (Ref 17)), 18,
      [Call_object (PObj (Ref 3)) [PObj (Ref 0)],
       Call_object (PObj (Ref 4)) [PObj (Ref 1)],
       Tensor_add (PObj (Ref 10)) (PObj (Ref 11)),
       Call_object (PObj (Ref 6)) [PObj (Ref 12)],
       Call_object (PObj (Ref 7)) [PObj (Ref 13), PObj (Ref 2)],
       Mpu_copy_to_model_parallel_region (PObj (Ref 14)),
       Call_object (PObj (Ref 8)) [PObj (Ref 15)],
       Call_object (PObj (Ref 9)) [PObj (Ref 16)]]) \<and>
   GPT2Model_C_forward example_framework (setattr example_C_self ''parallel_output'' (PBool False))
     (PObj (Ref 0)) (PObj (Ref 1)) (PObj (Ref 2)) (10, []) =
     (Inr (PObj (Ref 18)), 19,
      [Call_object (PObj (Ref 3)) [PObj (Ref 0)],
       Call_object (PObj (Ref 4)) [PObj (Ref 1)],
       Tensor_add (PObj (Ref 10)) (PObj (Ref 11)),
       Call_object (PObj (Ref 6)) [PObj (Ref 12)],
       Call_object (PObj (Ref 7)) [PObj (Ref 13), PObj (Ref 2)],
       Mpu_copy_to_model_parallel_region (PObj (Ref 14)),
       Call_object (PObj (Ref 8)) [PObj (Ref 15)],
       Call_object (PObj (Ref 9)) [PObj (Ref 16)],
       Mpu_gather_from_model_parallel_region (PObj (Ref 17))])"
proof -
  have run: "GPT2Model_forward example_framework (setattr example_self ''parallel_output'' (PBool True))
     (PObj (Ref 0)) (PObj (Ref 1)) (PObj (Ref 2)) (8, []) =
     (Inr (PObj (Ref 14)), 15,
      [Call_object (PObj (Ref 3)) [PObj (Ref 0)],
       Call_object (PObj (Ref 4)) [PObj (Ref 1)],
       Tensor_add (PObj (Ref 8)) (PObj (Ref 9)),
       Call_object (PObj (Ref 6)) [PObj (Ref 10)],
       Call_object (PObj (Ref 7)) [PObj (Ref 11), PObj (Ref 2)],
       Mpu_copy_to_model_parallel_region (PObj (Ref 12)),
       F_linear (PObj (Ref 13)) (PObj (Attr (Ref 3) ''weight'')) None])"
    by (simp add: GPT2Model_forward_def run_simps example_framework_def example_self_def)
  have run_C: "GPT2Model_C_forward example_framework (setattr example_C_self ''parallel_output'' (PBool True))
     (PObj (Ref 0)) (PObj (Ref 1)) (PObj (Ref 2)) (10, []) =
     (Inr (PObj (Ref 17)), 18,
      [Call_object (PObj (Ref 3)) [PObj (Ref 0)],
       Call_object (PObj (Ref 4)) [PObj (Ref 1)],
       Tensor_add (PObj (Ref 10)) (PObj (Ref 11)),
       Call_object (PObj (Ref 6)) [PObj (Ref 12)],
       Call_object (PObj (Ref 7)) [PObj (Ref 13), PObj (Ref 2)],
       Mpu_copy_to_model_parallel_region (PObj (Ref 14)),
       Call_object (PObj (Ref 8)) [PObj (Ref 15)],
       Call_object (PObj (Ref 9)) [PObj (Ref 16)]])"
    by (simp add: GPT2Model_C_forward_def run_simps example_framework_def example_self_def
        example_C_self_def)
  note gather = parallel_output_gather[of example_framework example_self
      "PObj (Ref 0)" "PObj (Ref 1)" "PObj (Ref 2)", THEN conjunct1]
  note gather_C = parallel_output_gather[of example_framework example_C_self
      "PObj (Ref 0)" "PObj (Ref 1)" "PObj (Ref 2)", THEN conjunct2, THEN conjunct1]
  show ?thesis
    unfolding gather gather_C py_bind_def run run_C
    by (simp add: call_def example_framework_def)
qed

section \<open>The external surface\<close>

























end
